theory Spec2Isabelle
  imports Main "HOL-Library.Word"
begin

section \<open>The page and the module as script.js sees them\<close>

text \<open>
  script.js is glue between a page and an Emscripten module. Everything it does is a
  probe of, or a call into, objects it does not own: \<^verbatim>\<open>window\<close>, the global
  \<^verbatim>\<open>Module\<close>, \<^verbatim>\<open>fetch\<close>, the console, the status element and the timers. The model
  keeps these in one record, \<open>page\<close>, and every function of the script becomes a
  function on it. What the script makes observable (console output, calls into foreign
  functions, promise rejections nobody handles) is appended to \<open>trace\<close> in the order it
  happens.

  The page is taken to hold the elements the script looks up at start (\<^verbatim>\<open>status\<close>,
  \<^verbatim>\<open>romSelect\<close> and the buttons), and \<^verbatim>\<open>Module\<close> and \<^verbatim>\<open>window.Module\<close> to name the same
  binding, as they do for the \<^verbatim>\<open>var Module\<close> of an Emscripten wrapper.
\<close>

type_synonym byte = "8 word"

text \<open>
  A value that a JavaScript function can throw, as far as the handlers of the script
  can tell the cases apart: they read \<^verbatim>\<open>.message\<close> and convert to a string.
  \<^item> \<open>ErrorObj name message\<close>: an object with a string \<^verbatim>\<open>message\<close>, such as an \<^verbatim>\<open>Error\<close>;
  \<^item> \<open>Plain s\<close>: any other value that is neither \<^verbatim>\<open>null\<close> nor \<^verbatim>\<open>undefined\<close> (a thrown
    string or number); its \<^verbatim>\<open>.message\<close> is \<^verbatim>\<open>undefined\<close> and \<open>s\<close> is its string form;
  \<^item> \<open>Nullish\<close>: \<^verbatim>\<open>null\<close> or \<^verbatim>\<open>undefined\<close>; reading a property of it raises a TypeError.
\<close>

datatype thrown = ErrorObj string string | Plain string | Nullish

datatype outcome = Returns | Throws thrown

text \<open>
  A property that may hold a foreign function. \<open>Undefined\<close> stands for every falsy value,
  \<open>NonFunction\<close> for a truthy value that is not callable, \<open>Function out\<close> for a function
  whose call ends as \<open>out\<close> says. The script only ever tests such a property for
  truthiness, tests \<^verbatim>\<open>typeof p === 'function'\<close>, or calls it.
\<close>

datatype slot = Undefined | NonFunction | Function outcome

fun truthy :: "slot \<Rightarrow> bool" where
  "truthy Undefined = False"
| "truthy NonFunction = True"
| "truthy (Function out) = True"

fun is_function :: "slot \<Rightarrow> bool" where
  "is_function (Function out) = True"
| "is_function Undefined = False"
| "is_function NonFunction = False"

text \<open>Calls that reach a foreign function, with their arguments.\<close>

datatype call =
    FS_unlink_call string
  | FS_createDataFile_call string string "byte list" bool bool
  | startEmulator_call string
  | callMain_call "string list"
  | run_call string
  | Module_save_state_call
  | window_save_state_call
  | Module_load_state_call
  | window_load_state_call
  | onRuntimeInitialized_call
  | callback_call nat

datatype event =
    ConsoleLog string string
  | ConsoleWarn string
  | ConsoleError "string option" thrown
  | Invoke call
  | UnhandledRejection thrown

text \<open>
  The callbacks handed to \<^verbatim>\<open>whenModuleReady\<close>: \<open>MountThenStart url filename\<close> is the
  async closure that \<^verbatim>\<open>loadAndStartRom\<close> builds; \<open>Probe n\<close> is a foreign callback that
  returns normally, used to observe \<^verbatim>\<open>whenModuleReady\<close> on its own.
\<close>

datatype callback = Probe nat | MountThenStart string string

text \<open>
  The value of \<^verbatim>\<open>Module.onRuntimeInitialized\<close>: falsy, truthy but not callable, a
  function installed by the wrapper, or the function that \<^verbatim>\<open>whenModuleReady\<close> installs,
  which closes over the previous value and the callback.
\<close>

datatype hook =
    HookUnset
  | HookNonFunction
  | HookExternal outcome
  | HookChained hook callback

fun hook_truthy :: "hook \<Rightarrow> bool" where
  "hook_truthy HookUnset = False"
| "hook_truthy HookNonFunction = True"
| "hook_truthy (HookExternal out) = True"
| "hook_truthy (HookChained prev cb) = True"

record response =
  res_ok :: bool
  res_status :: nat
  res_arrayBuffer :: "thrown + byte list"

datatype fetch_result = FetchRejected thrown | FetchResolved response

datatype task = Timeout callback | Poll callback

record module =
  mod_onRuntimeInitialized :: hook
  mod_main :: slot
  mod_FS_createDataFile :: slot
  mod_FS_unlink :: slot
  mod_callMain :: slot
  mod_save_state :: slot
  mod_load_state :: slot

record page =
  win_Module :: "module option"
  win_startEmulator :: slot
  win_run :: slot
  win_save_state :: slot
  win_load_state :: slot
  net_fetch :: "string \<Rightarrow> fetch_result"
  statusText :: string
  trace :: "event list"
  pending :: "(nat \<times> task) list"

definition invocations :: "event list \<Rightarrow> call list" where
  "invocations tr = concat (map (\<lambda>e. case e of Invoke c \<Rightarrow> [c] | _ \<Rightarrow> []) tr)"

definition is_createDataFile :: "call \<Rightarrow> bool" where
  "is_createDataFile c = (case c of FS_createDataFile_call d n b r w \<Rightarrow> True | _ \<Rightarrow> False)"

definition emit :: "event \<Rightarrow> page \<Rightarrow> page" where
  "emit e p = p\<lparr>trace := trace p @ [e]\<rparr>"

section \<open>JavaScript primitives the script relies on\<close>

text \<open>\<^verbatim>\<open>String(n)\<close> for a non-negative integer: its decimal digits.\<close>

fun show_nat :: "nat \<Rightarrow> string" where
  "show_nat n =
     (if n < 10 then [''0123456789'' ! n]
      else show_nat (n div 10) @ [''0123456789'' ! (n mod 10)])"

declare show_nat.simps [simp del]

text \<open>
  \<^verbatim>\<open>s.split(c)\<close> for a one-character separator: never empty, one more piece than there
  are separators.
\<close>

fun split_str :: "char \<Rightarrow> string \<Rightarrow> string list" where
  "split_str c [] = [[]]"
| "split_str c (x # xs) =
     (if x = c then [] # split_str c xs
      else (case split_str c xs of
              [] \<Rightarrow> [[x]]
            | w # ws \<Rightarrow> (x # w) # ws))"

text \<open>\<^verbatim>\<open>e.message\<close>: raises on \<^verbatim>\<open>null\<close> and \<^verbatim>\<open>undefined\<close>, is \<^verbatim>\<open>undefined\<close> (\<open>None\<close>) on a
  value without that property.\<close>

definition get_message :: "thrown \<Rightarrow> thrown + string option" where
  "get_message e =
     (case e of
        ErrorObj n m \<Rightarrow> Inr (Some m)
      | Plain s \<Rightarrow> Inr None
      | Nullish \<Rightarrow> Inl (ErrorObj ''TypeError'' ''Cannot read properties of null''))"

text \<open>\<^verbatim>\<open>String(e)\<close> for a thrown value that is not nullish; for an error object this is
  \<^verbatim>\<open>Error.prototype.toString\<close>.\<close>

definition to_string :: "thrown \<Rightarrow> string" where
  "to_string e =
     (case e of
        ErrorObj n m \<Rightarrow> (if n = [] then m else if m = [] then n else n @ '': '' @ m)
      | Plain s \<Rightarrow> s
      | Nullish \<Rightarrow> ''null'')"

text \<open>Calling the value of a property: a function is entered (and the call recorded)
  and ends as its outcome says; anything else raises a TypeError before any call.\<close>

definition call_slot :: "string \<Rightarrow> call \<Rightarrow> slot \<Rightarrow> page \<Rightarrow> (thrown + unit) \<times> page" where
  "call_slot name c f p =
     (case f of
        Function Returns \<Rightarrow> (Inr (), emit (Invoke c) p)
      | Function (Throws e) \<Rightarrow> (Inl e, emit (Invoke c) p)
      | _ \<Rightarrow> (Inl (ErrorObj ''TypeError'' (name @ '' is not a function'')), p))"

text \<open>
  Reading a property of the global \<^verbatim>\<open>Module\<close> when there is no such global. (When the
  global is declared and holds \<^verbatim>\<open>undefined\<close> or \<^verbatim>\<open>null\<close> the read raises a TypeError
  instead; it is an error object with a message as well, and the script treats both
  alike.)
\<close>

definition Module_not_defined :: thrown where
  "Module_not_defined = ErrorObj ''ReferenceError'' ''Module is not defined''"

section \<open>script.js\<close>

subsection \<open>setStatus\<close>

definition setStatus :: "string \<Rightarrow> page \<Rightarrow> page" where
  "setStatus s p = emit (ConsoleLog ''[N64]'' s) (p\<lparr>statusText := s\<rparr>)"

subsection \<open>mountRomToFS\<close>

text \<open>
  The async function is run to its end in one step: \<open>net_fetch p url\<close> is what
  \<^verbatim>\<open>fetch(url)\<close> settles to, \<open>res_arrayBuffer\<close> what reading the body settles to, and the
  page is taken not to change while the function is suspended at its two \<^verbatim>\<open>await\<close>s.
  \<open>Inl e\<close> is the promise rejected with \<open>e\<close>, \<open>Inr name\<close> the promise resolved.
\<close>

definition FS_not_available :: thrown where
  "FS_not_available =
     ErrorObj ''Error'' ''Emscripten FS not available (Module.FS_createDataFile missing)''"

definition mountRomToFS :: "string \<Rightarrow> string \<Rightarrow> page \<Rightarrow> (thrown + string) \<times> page" where
  "mountRomToFS url filename p =
     (let p1 = setStatus (''Fetching ROM: '' @ url) p in
      case net_fetch p1 url of
        FetchRejected e \<Rightarrow> (Inl e, p1)
      | FetchResolved res \<Rightarrow>
          if \<not> res_ok res then (Inl (ErrorObj ''Error'' (''HTTP '' @ show_nat (res_status res))), p1)
          else
            (case res_arrayBuffer res of
               Inl e \<Rightarrow> (Inl e, p1)
             | Inr u8 \<Rightarrow>
                 (case win_Module p1 of
                    None \<Rightarrow> (Inl FS_not_available, p1)
                  | Some m \<Rightarrow>
                      if \<not> truthy (mod_FS_createDataFile m) then (Inl FS_not_available, p1)
                      else
                        (let p2 = snd (call_slot ''Module.FS_unlink''
                                         (FS_unlink_call (''/'' @ filename)) (mod_FS_unlink m) p1) in
                         case call_slot ''Module.FS_createDataFile''
                                (FS_createDataFile_call ''/'' filename u8 True True)
                                (mod_FS_createDataFile m) p2 of
                           (Inr u, p3) \<Rightarrow> (Inr filename, setStatus (''ROM mounted: '' @ filename) p3)
                         | (Inl e, p3) \<Rightarrow> (Inl e, emit (ConsoleError None e) p3)))))"

subsection \<open>startEmulator\<close>

text \<open>
  The three probes and calls sit in the body of the \<^verbatim>\<open>try\<close>; \<open>startEmulator_try\<close> is
  that body and \<open>Inl e\<close> its leaving with \<open>e\<close> thrown. The probe
  \<^verbatim>\<open>typeof Module.callMain\<close> reads a property of the global and raises when there is no
  global. The handler reads \<^verbatim>\<open>err.message\<close>, which raises in its turn on a nullish
  value: then the function as a whole ends with that TypeError (\<open>Inl\<close>). The dash in the
  text of the warning is written in ASCII.
\<close>

definition startEmulator_try :: "string \<Rightarrow> page \<Rightarrow> (thrown + unit) \<times> page" where
  "startEmulator_try filename p =
     (if is_function (win_startEmulator p) then
        call_slot ''window.startEmulator'' (startEmulator_call (''/'' @ filename))
          (win_startEmulator p) p
      else
        (case win_Module p of
           None \<Rightarrow> (Inl Module_not_defined, p)
         | Some m \<Rightarrow>
             if is_function (mod_callMain m) then
               call_slot ''Module.callMain'' (callMain_call [''/'' @ filename]) (mod_callMain m) p
             else if is_function (win_run p) then
               call_slot ''window.run'' (run_call (''/'' @ filename)) (win_run p) p
             else
               (Inr (),
                setStatus ''Emulator start function not found''
                  (emit (ConsoleWarn
                     ''No obvious start function found - you may need to adapt startEmulator() in script.js'')
                     p))))"

definition startEmulator :: "string \<Rightarrow> page \<Rightarrow> (thrown + unit) \<times> page" where
  "startEmulator filename p =
     (case startEmulator_try filename (setStatus (''Starting emulator: '' @ filename) p) of
        (Inr u, p1) \<Rightarrow> (Inr (), p1)
      | (Inl err, p1) \<Rightarrow>
          (let p2 = emit (ConsoleError (Some ''Failed to start emulator:'') err) p1 in
           case get_message err of
             Inl te \<Rightarrow> (Inl te, p2)
           | Inr msg \<Rightarrow>
               (Inr (),
                setStatus (''Start failed: '' @
                  (case msg of
                     Some m \<Rightarrow> (if m \<noteq> [] then m else to_string err)
                   | None \<Rightarrow> to_string err)) p2)))"

subsection \<open>saveState and loadState\<close>

text \<open>The object that \<^verbatim>\<open>console.warn\<close> prints after its text is not recorded.\<close>

definition saveState_try :: "page \<Rightarrow> (thrown + unit) \<times> page" where
  "saveState_try p =
     (case win_Module p of
        None \<Rightarrow> (Inl Module_not_defined, p)
      | Some m \<Rightarrow>
          if is_function (mod_save_state m) then
            (case call_slot ''Module._save_state'' Module_save_state_call (mod_save_state m) p of
               (Inr u, p1) \<Rightarrow> (Inr (), setStatus ''Saved state via _save_state()'' p1)
             | (Inl e, p1) \<Rightarrow> (Inl e, p1))
          else if is_function (win_save_state p) then
            (case call_slot ''window.save_state'' window_save_state_call (win_save_state p) p of
               (Inr u, p1) \<Rightarrow> (Inr (), setStatus ''Saved state via save_state()'' p1)
             | (Inl e, p1) \<Rightarrow> (Inl e, p1))
          else
            (Inr (),
             emit (ConsoleWarn ''No save function found (module exports):'')
               (setStatus ''No save-state API found in WASM'' p)))"

definition saveState :: "page \<Rightarrow> (thrown + unit) \<times> page" where
  "saveState p =
     (case saveState_try (setStatus ''Attempting to save state...'' p) of
        (Inr u, p1) \<Rightarrow> (Inr (), p1)
      | (Inl e, p1) \<Rightarrow>
          (let p2 = emit (ConsoleError None e) p1 in
           case get_message e of
             Inl te \<Rightarrow> (Inl te, p2)
           | Inr msg \<Rightarrow>
               (Inr (),
                setStatus (''Save failed: '' @
                  (case msg of Some m \<Rightarrow> m | None \<Rightarrow> ''undefined'')) p2)))"

definition loadState_try :: "page \<Rightarrow> (thrown + unit) \<times> page" where
  "loadState_try p =
     (case win_Module p of
        None \<Rightarrow> (Inl Module_not_defined, p)
      | Some m \<Rightarrow>
          if is_function (mod_load_state m) then
            (case call_slot ''Module._load_state'' Module_load_state_call (mod_load_state m) p of
               (Inr u, p1) \<Rightarrow> (Inr (), setStatus ''Loaded state via _load_state()'' p1)
             | (Inl e, p1) \<Rightarrow> (Inl e, p1))
          else if is_function (win_load_state p) then
            (case call_slot ''window.load_state'' window_load_state_call (win_load_state p) p of
               (Inr u, p1) \<Rightarrow> (Inr (), setStatus ''Loaded state via load_state()'' p1)
             | (Inl e, p1) \<Rightarrow> (Inl e, p1))
          else
            (Inr (),
             emit (ConsoleWarn ''No load function found (module exports):'')
               (setStatus ''No load-state API found in WASM'' p)))"

definition loadState :: "page \<Rightarrow> (thrown + unit) \<times> page" where
  "loadState p =
     (case loadState_try (setStatus ''Attempting to load state...'' p) of
        (Inr u, p1) \<Rightarrow> (Inr (), p1)
      | (Inl e, p1) \<Rightarrow>
          (let p2 = emit (ConsoleError None e) p1 in
           case get_message e of
             Inl te \<Rightarrow> (Inl te, p2)
           | Inr msg \<Rightarrow>
               (Inr (),
                setStatus (''Load state failed: '' @
                  (case msg of Some m \<Rightarrow> m | None \<Rightarrow> ''undefined'')) p2)))"

subsection \<open>whenModuleReady\<close>

text \<open>
  The function returns nothing and has no raising path. It leaves the callback in one of
  three places: inside a new value of \<^verbatim>\<open>Module.onRuntimeInitialized\<close>, in a 50 ms
  timeout, or in a 50 ms interval that polls. \<open>pending\<close> holds the timeouts and intervals
  with the milliseconds left until each fires.
\<close>

definition module_shows_ready :: "page \<Rightarrow> bool" where
  "module_shows_ready p =
     (case win_Module p of
        None \<Rightarrow> False
      | Some m \<Rightarrow> hook_truthy (mod_onRuntimeInitialized m) \<or> truthy (mod_main m))"

definition whenModuleReady :: "callback \<Rightarrow> page \<Rightarrow> page" where
  "whenModuleReady cb p =
     (case win_Module p of
        None \<Rightarrow> p\<lparr>pending := pending p @ [(50, Poll cb)]\<rparr>
      | Some m \<Rightarrow>
          if hook_truthy (mod_onRuntimeInitialized m) then
            p\<lparr>win_Module :=
                Some (m\<lparr>mod_onRuntimeInitialized := HookChained (mod_onRuntimeInitialized m) cb\<rparr>)\<rparr>
          else if truthy (mod_main m) then p\<lparr>pending := pending p @ [(50, Timeout cb)]\<rparr>
          else p\<lparr>pending := pending p @ [(50, Poll cb)]\<rparr>)"

subsection \<open>loadAndStartRom\<close>

text \<open>\<^verbatim>\<open>url.split('/').pop()\<close>; the array that \<^verbatim>\<open>split\<close> returns is never empty.\<close>

definition filename_of :: "string \<Rightarrow> string" where
  "filename_of url = last (split_str CHR ''/'' url)"

text \<open>
  Calling the callback. The async closure returns a promise at once and never throws
  into its caller; \<^verbatim>\<open>whenModuleReady\<close> drops that promise, so a rejection of it has no
  handler and the browser reports it as unhandled. Its body runs \<^verbatim>\<open>mountRomToFS\<close> and,
  if that resolves, \<^verbatim>\<open>startEmulator\<close>.
\<close>

definition invoke :: "callback \<Rightarrow> page \<Rightarrow> page" where
  "invoke cb p =
     (case cb of
        Probe n \<Rightarrow> emit (Invoke (callback_call n)) p
      | MountThenStart url filename \<Rightarrow>
          (case mountRomToFS url filename p of
             (Inl e, p1) \<Rightarrow> emit (UnhandledRejection e) p1
           | (Inr mounted, p1) \<Rightarrow>
               (case startEmulator mounted p1 of
                  (Inl e, p2) \<Rightarrow> emit (UnhandledRejection e) p2
                | (Inr u, p2) \<Rightarrow> p2)))"

text \<open>
  The \<^verbatim>\<open>try\<close> of \<^verbatim>\<open>loadAndStartRom\<close> encloses \<^verbatim>\<open>await whenModuleReady(...)\<close>: the call of
  \<^verbatim>\<open>whenModuleReady\<close> and the wait for what it returned. It returns \<^verbatim>\<open>undefined\<close>, the
  \<^verbatim>\<open>await\<close> of which completes, so the handler has nothing to run on. The sum type keeps
  the handler in the model.
\<close>

definition loadAndStartRom_try :: "string \<Rightarrow> string \<Rightarrow> page \<Rightarrow> (thrown + unit) \<times> page" where
  "loadAndStartRom_try url filename p = (Inr (), whenModuleReady (MountThenStart url filename) p)"

definition loadAndStartRom :: "string \<Rightarrow> page \<Rightarrow> (thrown + unit) \<times> page" where
  "loadAndStartRom url p =
     (let filename = filename_of url in
      case loadAndStartRom_try url filename p of
        (Inr u, p1) \<Rightarrow> (Inr (), p1)
      | (Inl err, p1) \<Rightarrow>
          (let p2 = emit (ConsoleError None err) p1 in
           case get_message err of
             Inl te \<Rightarrow> (Inl te, p2)
           | Inr msg \<Rightarrow>
               (Inr (),
                setStatus (''Error loading ROM: '' @
                  (case msg of
                     Some m \<Rightarrow> (if m \<noteq> [] then m else to_string err)
                   | None \<Rightarrow> to_string err)) p2)))"

subsection \<open>Event wiring\<close>

text \<open>\<^verbatim>\<open>romSelector.value || 'roms/mario64.z64'\<close>, read once when the script starts, and
  \<^verbatim>\<open>romSelector.value || defaultRomPath\<close>, read at each click of the load button.\<close>

definition defaultRomPath :: "string \<Rightarrow> string" where
  "defaultRomPath initial_value = (if initial_value \<noteq> [] then initial_value else ''roms/mario64.z64'')"

definition clicked_url :: "string \<Rightarrow> string \<Rightarrow> string" where
  "clicked_url initial_value current_value =
     (if current_value \<noteq> [] then current_value else defaultRomPath initial_value)"

section \<open>What the environment does\<close>



text \<open>
  Timers. A due timeout calls its callback. A due poll tests the module: if it shows
  the callback slot or the entry point, the interval is cleared and the callback put in
  a 10 ms timeout; otherwise the interval stays and fires again after 50 ms. \<open>tick\<close> lets
  one millisecond pass and runs what has become due, in the order of registration. Every
  delay the script asks for is at least 10 ms, so a pending entry has at least 1 ms left.
\<close>

definition fire :: "task \<Rightarrow> page \<Rightarrow> page" where
  "fire t p =
     (case t of
        Timeout cb \<Rightarrow> invoke cb p
      | Poll cb \<Rightarrow>
          if module_shows_ready p then p\<lparr>pending := pending p @ [(10, Timeout cb)]\<rparr>
          else p\<lparr>pending := pending p @ [(50, Poll cb)]\<rparr>)"

definition tick :: "page \<Rightarrow> page" where
  "tick p =
     (let aged = map (\<lambda>(d, t). (d - 1, t)) (pending p);
          due = map snd (filter (\<lambda>(d, t). d = 0) aged);
          rest = filter (\<lambda>(d, t). d \<noteq> 0) aged
      in fold fire due (p\<lparr>pending := rest\<rparr>))"

fun elapse :: "nat \<Rightarrow> page \<Rightarrow> page" where
  "elapse 0 p = p"
| "elapse (Suc n) p = elapse n (tick p)"

section \<open>Pages used as concrete inputs\<close>

definition no_module :: page where
  "no_module =
     \<lparr>win_Module = None, win_startEmulator = Undefined, win_run = Undefined,
      win_save_state = Undefined, win_load_state = Undefined,
      net_fetch = (\<lambda>url. FetchRejected (ErrorObj ''TypeError'' ''Failed to fetch'')),
      statusText = [], trace = [], pending = []\<rparr>"

definition empty_module :: module where
  "empty_module =
     \<lparr>mod_onRuntimeInitialized = HookUnset, mod_main = Undefined,
      mod_FS_createDataFile = Undefined, mod_FS_unlink = Undefined, mod_callMain = Undefined,
      mod_save_state = Undefined, mod_load_state = Undefined\<rparr>"

definition not_found :: response where
  "not_found = \<lparr>res_ok = False, res_status = 404, res_arrayBuffer = Inr []\<rparr>"

definition rom_bytes :: "byte list" where
  "rom_bytes = [0x80, 0x37, 0x12, 0x40]"

definition rom_found :: response where
  "rom_found = \<lparr>res_ok = True, res_status = 200, res_arrayBuffer = Inr rom_bytes\<rparr>"

definition fs_module :: module where
  "fs_module =
     empty_module\<lparr>mod_FS_createDataFile := Function Returns,
                  mod_FS_unlink := Function (Throws (ErrorObj ''ErrnoError'' ''FS error''))\<rparr>"

definition mounting_page :: page where
  "mounting_page =
     no_module\<lparr>win_Module := Some fs_module, net_fetch := (\<lambda>url. FetchResolved rom_found)\<rparr>"

definition throwing_fs :: page where
  "throwing_fs =
     no_module\<lparr>win_Module := Some (empty_module\<lparr>mod_FS_createDataFile :=
                   Function (Throws (ErrorObj ''ErrnoError'' ''FS error''))\<rparr>),
               net_fetch := (\<lambda>url. FetchResolved rom_found)\<rparr>"

definition page_404 :: page where
  "page_404 = no_module\<lparr>net_fetch := (\<lambda>url. FetchResolved not_found)\<rparr>"

definition plain_page :: page where
  "plain_page = no_module\<lparr>win_Module := Some empty_module\<rparr>"

definition only_callMain :: page where
  "only_callMain =
     no_module\<lparr>win_Module := Some (empty_module\<lparr>mod_callMain := Function Returns\<rparr>)\<rparr>"

definition all_launchers :: page where
  "all_launchers =
     no_module\<lparr>win_Module := Some (empty_module\<lparr>mod_callMain := Function Returns\<rparr>),
               win_startEmulator := Function Returns, win_run := Function Returns\<rparr>"

definition callMain_and_run :: page where
  "callMain_and_run =
     no_module\<lparr>win_Module := Some (empty_module\<lparr>mod_callMain := Function Returns\<rparr>),
               win_run := Function Returns\<rparr>"

definition run_with_module :: page where
  "run_with_module = no_module\<lparr>win_Module := Some empty_module, win_run := Function Returns\<rparr>"

definition only_page_save :: page where
  "only_page_save =
     no_module\<lparr>win_save_state := Function Returns, win_load_state := Function Returns\<rparr>"

definition both_save :: page where
  "both_save =
     no_module\<lparr>win_Module := Some (empty_module\<lparr>mod_save_state := Function Returns,
                                                  mod_load_state := Function Returns\<rparr>),
               win_save_state := Function Returns, win_load_state := Function Returns\<rparr>"

definition null_thrower :: page where
  "null_thrower =
     no_module\<lparr>win_Module := Some empty_module,
               win_startEmulator := Function (Throws Nullish),
               win_save_state := Function (Throws Nullish),
               win_load_state := Function (Throws Nullish)\<rparr>"

definition entry_page :: page where
  "entry_page = no_module\<lparr>win_Module := Some (empty_module\<lparr>mod_main := Function Returns\<rparr>)\<rparr>"

definition ready_404 :: page where
  "ready_404 = entry_page\<lparr>net_fetch := (\<lambda>url. FetchResolved not_found)\<rparr>"




section \<open>Basic facts\<close>

lemma invocations_simps [simp]:
  "invocations [] = []"
  "invocations (tr @ tr') = invocations tr @ invocations tr'"
  "invocations (Invoke c # tr) = c # invocations tr"
  "invocations (ConsoleLog a b # tr) = invocations tr"
  "invocations (ConsoleWarn w # tr) = invocations tr"
  "invocations (ConsoleError l e # tr) = invocations tr"
  "invocations (UnhandledRejection e # tr) = invocations tr"
  by (simp_all add: invocations_def)

lemma emit_fields [simp]:
  "trace (emit e p) = trace p @ [e]"
  "win_Module (emit e p) = win_Module p"
  "win_startEmulator (emit e p) = win_startEmulator p"
  "win_run (emit e p) = win_run p"
  "win_save_state (emit e p) = win_save_state p"
  "win_load_state (emit e p) = win_load_state p"
  "net_fetch (emit e p) = net_fetch p"
  "statusText (emit e p) = statusText p"
  "pending (emit e p) = pending p"
  by (simp_all add: emit_def)

lemma setStatus_fields [simp]:
  "trace (setStatus s p) = trace p @ [ConsoleLog ''[N64]'' s]"
  "win_Module (setStatus s p) = win_Module p"
  "win_startEmulator (setStatus s p) = win_startEmulator p"
  "win_run (setStatus s p) = win_run p"
  "win_save_state (setStatus s p) = win_save_state p"
  "win_load_state (setStatus s p) = win_load_state p"
  "net_fetch (setStatus s p) = net_fetch p"
  "statusText (setStatus s p) = s"
  "pending (setStatus s p) = pending p"
  by (simp_all add: setStatus_def)

lemma call_slot_cases:
  "call_slot name c f p = (r, p') \<Longrightarrow>
     (is_function f \<and> p' = emit (Invoke c) p
        \<and> f = Function (case r of Inr u \<Rightarrow> Returns | Inl e \<Rightarrow> Throws e)) \<or>
     (\<not> is_function f \<and> p' = p
        \<and> r = Inl (ErrorObj ''TypeError'' (name @ '' is not a function'')))"
  by (auto simp: call_slot_def split: slot.splits outcome.splits)

lemma call_slot_invocations:
  "invocations (trace (snd (call_slot name c f p))) =
     invocations (trace p) @ (if is_function f then [c] else [])"
  by (auto simp: call_slot_def split: slot.splits outcome.splits)

lemma show_nat_404: "show_nat 404 = ''404''"
  by (simp add: show_nat.simps)

lemma filename_of_mario: "filename_of ''roms/mario64.z64'' = ''mario64.z64''"
  by (simp add: filename_of_def)

section \<open>Path segments\<close>

lemma split_str_not_Nil [simp]: "split_str c xs \<noteq> []"
  by (induction xs) (auto split: list.splits)

lemma length_split_str: "length (split_str c xs) = Suc (length (filter (\<lambda>x. x = c) xs))"
  by (induction xs) (auto split: list.splits)

lemma split_str_single: "split_str c xs = [w] \<Longrightarrow> c \<notin> set xs"
proof -
  assume "split_str c xs = [w]"
  then have "length (split_str c xs) = 1" by simp
  then have "filter (\<lambda>x. x = c) xs = []" by (simp add: length_split_str)
  then show ?thesis by (auto simp: filter_empty_conv)
qed

lemma last_split_str_empty: "last (split_str c xs) = [] \<longleftrightarrow> xs = [] \<or> last xs = c"
proof (induction xs)
  case Nil
  show ?case by simp
next
  case (Cons x xs)
  show ?case
  proof (cases "x = c")
    case True
    with Cons show ?thesis by auto
  next
    case False
    obtain w ws where s: "split_str c xs = w # ws"
      by (cases "split_str c xs") simp_all
    show ?thesis
    proof (cases ws)
      case Nil
      with s have "c \<notin> set xs" by (auto dest: split_str_single)
      with False s Nil show ?thesis by auto
    next
      case (Cons v vs)
      with s have "xs \<noteq> []" by auto
      with False s Cons Cons.IH show ?thesis by auto
    qed
  qed
qed

text \<open>The last piece that \<^verbatim>\<open>split\<close> returns is what follows the last separator, or the
  whole string when there is none.\<close>

lemma split_str_no_sep: "c \<notin> set xs \<Longrightarrow> split_str c xs = [xs]"
  by (induction xs) auto

lemma split_str_two: "\<exists>w v vs. split_str c (xs @ c # ys) = w # v # vs"
proof -
  have "length (split_str c (xs @ c # ys)) \<ge> 2"
    by (simp add: length_split_str)
  then show ?thesis
    by (cases "split_str c (xs @ c # ys)" rule: list.exhaust; simp)
       (metis One_nat_def Suc_1 Suc_le_length_iff length_Cons list.size(3) not_less_eq_eq)
qed

lemma last_split_str_append: "last (split_str c (xs @ c # ys)) = last (split_str c ys)"
proof (induction xs)
  case Nil
  show ?case by simp
next
  case (Cons x xs)
  obtain w v vs where s: "split_str c (xs @ c # ys) = w # v # vs"
    using split_str_two by blast
  with Cons show ?case by auto
qed

lemma filename_of_segment:
  assumes "url = seg \<or> url = dir @ CHR ''/'' # seg" and "CHR ''/'' \<notin> set seg"
  shows "filename_of url = seg"
  using assms by (auto simp: filename_of_def last_split_str_append split_str_no_sep)

section \<open>The ROM mounter\<close>

text \<open>A mount that resolves, for any name the caller passes.\<close>

lemma mountRomToFS_resolved:
  assumes "mountRomToFS url filename p = (Inr name, p')"
  shows "name = filename \<and>
         (\<exists>res u8 m. net_fetch p url = FetchResolved res \<and> res_ok res
            \<and> res_arrayBuffer res = Inr u8
            \<and> win_Module p = Some m \<and> is_function (mod_FS_createDataFile m)
            \<and> filter is_createDataFile (invocations (trace p')) =
                filter is_createDataFile (invocations (trace p)) @
                  [FS_createDataFile_call ''/'' filename u8 True True])"
  using assms
  apply (simp add: mountRomToFS_def Let_def
           split: fetch_result.splits if_splits sum.splits option.splits prod.splits)
  apply (auto dest!: call_slot_cases simp: is_createDataFile_def call_slot_invocations)
  done

text \<open>When a mount resolves: exactly when the fetch answers with a success status, the
  body can be read, and the module holds an injection function that returns.\<close>

lemma mountRomToFS_resolves_iff:
  "(\<exists>name p'. mountRomToFS url filename p = (Inr name, p')) \<longleftrightarrow>
   (\<exists>res u8 m. net_fetch p url = FetchResolved res \<and> res_ok res \<and> res_arrayBuffer res = Inr u8
      \<and> win_Module p = Some m \<and> mod_FS_createDataFile m = Function Returns)"
  by (auto simp: mountRomToFS_def Let_def call_slot_def
        split: fetch_result.splits sum.splits option.splits prod.splits slot.splits outcome.splits)

lemma mounting_page_mounts:
  "mountRomToFS ''roms/mario64.z64'' (filename_of ''roms/mario64.z64'') mounting_page =
     (Inr ''mario64.z64'',
      mounting_page\<lparr>statusText := ''ROM mounted: mario64.z64'',
        trace := [ConsoleLog ''[N64]'' ''Fetching ROM: roms/mario64.z64'',
                  Invoke (FS_unlink_call ''/mario64.z64''),
                  Invoke (FS_createDataFile_call ''/'' ''mario64.z64'' rom_bytes True True),
                  ConsoleLog ''[N64]'' ''ROM mounted: mario64.z64'']\<rparr>)"
  by (simp add: filename_of_mario mountRomToFS_def mounting_page_def no_module_def fs_module_def
        empty_module_def rom_found_def setStatus_def emit_def call_slot_def Let_def)

text \<open>What a mount does when the response is a success, its body is read, and the
  injection function returns: the whole result, for any name the caller passes.\<close>

lemma mountRomToFS_succeeds:
  assumes "net_fetch p url = FetchResolved res" and "res_ok res"
    and "res_arrayBuffer res = Inr u8"
    and "win_Module p = Some m" and "mod_FS_createDataFile m = Function Returns"
  shows "mountRomToFS url filename p =
           (Inr filename,
            p\<lparr>statusText := ''ROM mounted: '' @ filename,
              trace := trace p @ [ConsoleLog ''[N64]'' (''Fetching ROM: '' @ url)]
                @ (if is_function (mod_FS_unlink m) then [Invoke (FS_unlink_call (''/'' @ filename))]
                   else [])
                @ [Invoke (FS_createDataFile_call ''/'' filename u8 True True),
                   ConsoleLog ''[N64]'' (''ROM mounted: '' @ filename)]\<rparr>)"
  using assms
  by (cases "mod_FS_unlink m" rule: slot.exhaust)
     (auto simp: mountRomToFS_def Let_def call_slot_def setStatus_def emit_def
        split: outcome.splits)

text \<open>
  C1, as stated, fails: the response has a success status and the module holds the
  injection function, but that function throws when called. \<^verbatim>\<open>mountRomToFS\<close> logs the
  error and throws it again, so the mount rejects and resolves to no name.
\<close>

theorem mount_rejects_when_injection_throws:
  "net_fetch throwing_fs ''roms/mario64.z64'' = FetchResolved rom_found
   \<and> res_ok rom_found
   \<and> win_Module throwing_fs = Some (empty_module\<lparr>mod_FS_createDataFile :=
                   Function (Throws (ErrorObj ''ErrnoError'' ''FS error''))\<rparr>)
   \<and> is_function (Function (Throws (ErrorObj ''ErrnoError'' ''FS error'')))
   \<and> mountRomToFS ''roms/mario64.z64'' (filename_of ''roms/mario64.z64'') throwing_fs =
       (Inl (ErrorObj ''ErrnoError'' ''FS error''),
        throwing_fs\<lparr>statusText := ''Fetching ROM: roms/mario64.z64'',
          trace := [ConsoleLog ''[N64]'' ''Fetching ROM: roms/mario64.z64'',
                    Invoke (FS_createDataFile_call ''/'' ''mario64.z64'' rom_bytes True True),
                    ConsoleError None (ErrorObj ''ErrnoError'' ''FS error'')]\<rparr>)"
  by (simp add: filename_of_mario mountRomToFS_def throwing_fs_def no_module_def
        empty_module_def rom_found_def setStatus_def emit_def call_slot_def Let_def)

text \<open>
  C1 (amended). Let \<open>seg\<close> be the last path segment of the url: the url itself if it
  has no slash, and otherwise what follows its last slash. If the fetch answers with a
  success status, the body is read in full, and the module holds an injection function
  that returns normally, then the mount, called as the load pipeline calls it, resolves
  to exactly \<open>seg\<close>. What it does is fixed: it reports the fetch, tries to remove
  \<^verbatim>\<open>'/' + seg\<close>, calls \<^verbatim>\<open>FS_createDataFile\<close> with the root directory, \<open>seg\<close>, the whole
  body and both flags set, and reports the mount. Of all its calls exactly one is a call
  of the injection function.
\<close>

theorem mount_injects_once:
  assumes "url = seg \<or> url = dir @ CHR ''/'' # seg" and "CHR ''/'' \<notin> set seg"
    and "net_fetch p url = FetchResolved res" and "res_ok res"
    and "res_arrayBuffer res = Inr u8"
    and "win_Module p = Some m" and "mod_FS_createDataFile m = Function Returns"
  shows "filename_of url = seg
         \<and> mountRomToFS url (filename_of url) p =
           (Inr seg,
            p\<lparr>statusText := ''ROM mounted: '' @ seg,
              trace := trace p @ [ConsoleLog ''[N64]'' (''Fetching ROM: '' @ url)]
                @ (if is_function (mod_FS_unlink m) then [Invoke (FS_unlink_call (''/'' @ seg))]
                   else [])
                @ [Invoke (FS_createDataFile_call ''/'' seg u8 True True),
                   ConsoleLog ''[N64]'' (''ROM mounted: '' @ seg)]\<rparr>)
         \<and> filter is_createDataFile
              (invocations (trace (snd (mountRomToFS url (filename_of url) p)))) =
             filter is_createDataFile (invocations (trace p)) @
               [FS_createDataFile_call ''/'' seg u8 True True]"
proof -
  have f: "filename_of url = seg"
    using assms(1,2) by (rule filename_of_segment)
  have m: "mountRomToFS url seg p =
           (Inr seg,
            p\<lparr>statusText := ''ROM mounted: '' @ seg,
              trace := trace p @ [ConsoleLog ''[N64]'' (''Fetching ROM: '' @ url)]
                @ (if is_function (mod_FS_unlink m) then [Invoke (FS_unlink_call (''/'' @ seg))]
                   else [])
                @ [Invoke (FS_createDataFile_call ''/'' seg u8 True True),
                   ConsoleLog ''[N64]'' (''ROM mounted: '' @ seg)]\<rparr>)"
    using assms(3-7) by (rule mountRomToFS_succeeds)
  show ?thesis
    by (simp add: f m is_createDataFile_def)
qed

theorem mount_injects_once_witness:
  "(''roms/mario64.z64'' = ''mario64.z64'' \<or> ''roms/mario64.z64'' = ''roms'' @ CHR ''/'' # ''mario64.z64'')
   \<and> CHR ''/'' \<notin> set ''mario64.z64''
   \<and> net_fetch mounting_page ''roms/mario64.z64'' = FetchResolved rom_found
   \<and> res_ok rom_found \<and> res_arrayBuffer rom_found = Inr rom_bytes
   \<and> win_Module mounting_page = Some fs_module
   \<and> mod_FS_createDataFile fs_module = Function Returns
   \<and> filename_of ''roms/mario64.z64'' = ''mario64.z64''
   \<and> fst (mountRomToFS ''roms/mario64.z64'' (filename_of ''roms/mario64.z64'') mounting_page)
       = Inr ''mario64.z64''
   \<and> invocations (trace (snd
         (mountRomToFS ''roms/mario64.z64'' (filename_of ''roms/mario64.z64'') mounting_page)))
       = [FS_unlink_call ''/mario64.z64'',
          FS_createDataFile_call ''/'' ''mario64.z64'' rom_bytes True True]"
proof -
  have a: "''roms/mario64.z64'' = ''mario64.z64'' \<or> ''roms/mario64.z64'' = ''roms'' @ CHR ''/'' # ''mario64.z64''"
    by simp
  have b: "CHR ''/'' \<notin> set ''mario64.z64''"
    by simp
  have c: "net_fetch mounting_page ''roms/mario64.z64'' = FetchResolved rom_found"
    by (simp add: mounting_page_def no_module_def)
  have d: "res_ok rom_found" and e: "res_arrayBuffer rom_found = Inr rom_bytes"
    by (simp_all add: rom_found_def)
  have g: "win_Module mounting_page = Some fs_module"
    by (simp add: mounting_page_def no_module_def)
  have h: "mod_FS_createDataFile fs_module = Function Returns"
    by (simp add: fs_module_def empty_module_def)
  have u: "is_function (mod_FS_unlink fs_module)"
    by (simp add: fs_module_def empty_module_def)
  note t = mount_injects_once [OF a b c d e g h]
  note r = t [THEN conjunct2, THEN conjunct1]
  have f: "filename_of ''roms/mario64.z64'' = ''mario64.z64''"
    by (rule t [THEN conjunct1])
  have v: "fst (mountRomToFS ''roms/mario64.z64'' (filename_of ''roms/mario64.z64'') mounting_page)
             = Inr ''mario64.z64''"
    by (simp only: r fst_conv)
  have tr: "trace mounting_page = []"
    by (simp add: mounting_page_def no_module_def)
  have w: "invocations (trace (snd
         (mountRomToFS ''roms/mario64.z64'' (filename_of ''roms/mario64.z64'') mounting_page)))
       = [FS_unlink_call ''/mario64.z64'',
          FS_createDataFile_call ''/'' ''mario64.z64'' rom_bytes True True]"
    by (simp only: r snd_conv) (simp add: u tr)
  show ?thesis
    by (intro conjI a b c d e g h f v w)
qed

text \<open>
  C3. When the fetch answers with a status that is not a success, the mount fails with
  an error whose message carries the HTTP status. All it has done by then is to report
  that it is fetching: it has called no function of the module, neither the injection
  function nor the removal function, so the module and its filesystem are as they were.
\<close>

theorem mount_fails_on_http_status:
  assumes "net_fetch p url = FetchResolved res" and "\<not> res_ok res"
  shows "mountRomToFS url filename p =
           (Inl (ErrorObj ''Error'' (''HTTP '' @ show_nat (res_status res))),
            setStatus (''Fetching ROM: '' @ url) p)
         \<and> invocations (trace (snd (mountRomToFS url filename p))) = invocations (trace p)
         \<and> win_Module (snd (mountRomToFS url filename p)) = win_Module p"
  using assms by (simp add: mountRomToFS_def Let_def)

theorem mount_fails_on_http_status_witness:
  "net_fetch page_404 ''roms/mario64.z64'' = FetchResolved not_found
   \<and> \<not> res_ok not_found
   \<and> fst (mountRomToFS ''roms/mario64.z64'' ''mario64.z64'' page_404)
       = Inl (ErrorObj ''Error'' ''HTTP 404'')
   \<and> invocations (trace (snd (mountRomToFS ''roms/mario64.z64'' ''mario64.z64'' page_404))) = []"
  using mount_fails_on_http_status [of page_404 "''roms/mario64.z64''" not_found "''mario64.z64''"]
  by (simp add: page_404_def not_found_def no_module_def show_nat_404)

section \<open>The emulator launcher\<close>

lemma startEmulator_try_invocations:
  "invocations (trace (snd (startEmulator_try f p))) =
     invocations (trace p) @
       (if is_function (win_startEmulator p) then [startEmulator_call (''/'' @ f)]
        else case win_Module p of
               None \<Rightarrow> []
             | Some m \<Rightarrow>
                 if is_function (mod_callMain m) then [callMain_call [''/'' @ f]]
                 else if is_function (win_run p) then [run_call (''/'' @ f)]
                 else [])"
  by (simp add: startEmulator_try_def call_slot_invocations split: option.splits)

text \<open>Every call that \<^verbatim>\<open>startEmulator\<close> makes, on any page.\<close>

lemma startEmulator_invocations:
  "invocations (trace (snd (startEmulator f p))) =
     invocations (trace p) @
       (if is_function (win_startEmulator p) then [startEmulator_call (''/'' @ f)]
        else case win_Module p of
               None \<Rightarrow> []
             | Some m \<Rightarrow>
                 if is_function (mod_callMain m) then [callMain_call [''/'' @ f]]
                 else if is_function (win_run p) then [run_call (''/'' @ f)]
                 else [])"
proof -
  let ?p0 = "setStatus (''Starting emulator: '' @ f) p"
  have "invocations (trace (snd (startEmulator f p))) =
          invocations (trace (snd (startEmulator_try f ?p0)))"
    by (cases "startEmulator_try f ?p0")
       (simp add: startEmulator_def Let_def split: sum.splits)
  then show ?thesis
    by (simp add: startEmulator_try_invocations)
qed

text \<open>
  The script calls \<^verbatim>\<open>startEmulator\<close> in one place only, after a mount that resolved, and
  a mount resolves only where the module object is present and leaves it in place.
\<close>

lemma mountRomToFS_keeps_window:
  "win_Module (snd (mountRomToFS url filename p)) = win_Module p
   \<and> win_startEmulator (snd (mountRomToFS url filename p)) = win_startEmulator p
   \<and> win_run (snd (mountRomToFS url filename p)) = win_run p"
  by (auto simp: mountRomToFS_def Let_def call_slot_def
        split: fetch_result.splits sum.splits option.splits prod.splits slot.splits outcome.splits)

lemma mountRomToFS_resolved_has_module:
  assumes "mountRomToFS url filename p = (Inr name, p')"
  shows "\<exists>m. win_Module p' = Some m"
proof -
  from mountRomToFS_resolved [OF assms] obtain m where "win_Module p = Some m"
    by blast
  moreover have "win_Module p' = win_Module p"
    using mountRomToFS_keeps_window [of url filename p] assms by simp
  ultimately show ?thesis by simp
qed

text \<open>
  C4. On every page whose module object is present (and also where there is none but
  \<^verbatim>\<open>window.startEmulator\<close> is a function), \<^verbatim>\<open>startEmulator\<close> calls exactly one
  candidate, the first that is a function in the order \<^verbatim>\<open>window.startEmulator\<close>,
  \<^verbatim>\<open>Module.callMain\<close>, \<^verbatim>\<open>window.run\<close>, and none if none is. The page-level functions
  get the absolute path \<^verbatim>\<open>'/' + filename\<close>, \<^verbatim>\<open>callMain\<close> gets the one-element list of
  it. On a page where only \<^verbatim>\<open>callMain\<close> exists, starting \<^verbatim>\<open>game.z64\<close> makes the single
  call \<^verbatim>\<open>callMain(['/game.z64'])\<close>.
\<close>

theorem start_priority:
  assumes "is_function (win_startEmulator p) \<or> win_Module p = Some m"
  shows "invocations (trace (snd (startEmulator f p))) =
     invocations (trace p) @
       (if is_function (win_startEmulator p) then [startEmulator_call (''/'' @ f)]
        else if is_function (mod_callMain m) then [callMain_call [''/'' @ f]]
        else if is_function (win_run p) then [run_call (''/'' @ f)]
        else [])"
  using assms by (auto simp: startEmulator_invocations)

theorem start_priority_witness:
  "(is_function (win_startEmulator only_callMain)
      \<or> win_Module only_callMain = Some (empty_module\<lparr>mod_callMain := Function Returns\<rparr>))
   \<and> invocations (trace (snd (startEmulator ''game.z64'' only_callMain)))
       = [callMain_call [''/game.z64'']]
   \<and> (is_function (win_startEmulator all_launchers)
      \<or> win_Module all_launchers = Some (empty_module\<lparr>mod_callMain := Function Returns\<rparr>))
   \<and> invocations (trace (snd (startEmulator ''game.z64'' all_launchers)))
       = [startEmulator_call ''/game.z64'']
   \<and> (is_function (win_startEmulator callMain_and_run)
      \<or> win_Module callMain_and_run = Some (empty_module\<lparr>mod_callMain := Function Returns\<rparr>))
   \<and> invocations (trace (snd (startEmulator ''game.z64'' callMain_and_run)))
       = [callMain_call [''/game.z64'']]
   \<and> (is_function (win_startEmulator run_with_module)
      \<or> win_Module run_with_module = Some empty_module)
   \<and> invocations (trace (snd (startEmulator ''game.z64'' run_with_module)))
       = [run_call ''/game.z64'']"
  using start_priority [of only_callMain "empty_module\<lparr>mod_callMain := Function Returns\<rparr>"
          "''game.z64''"]
    start_priority [of all_launchers "empty_module\<lparr>mod_callMain := Function Returns\<rparr>"
          "''game.z64''"]
    start_priority [of callMain_and_run "empty_module\<lparr>mod_callMain := Function Returns\<rparr>"
          "''game.z64''"]
    start_priority [of run_with_module empty_module "''game.z64''"]
  by (simp add: only_callMain_def all_launchers_def callMain_and_run_def run_with_module_def
        no_module_def empty_module_def)

text \<open>
  C7. On a page whose module object is present and where none of the three candidates
  is a function, \<^verbatim>\<open>startEmulator\<close> calls nothing, warns on the console, sets the status
  to \<^verbatim>\<open>Emulator start function not found\<close>, does nothing else and returns normally.
\<close>

theorem start_nothing_found:
  assumes "win_Module p = Some m" and "\<not> is_function (win_startEmulator p)"
    and "\<not> is_function (mod_callMain m)" and "\<not> is_function (win_run p)"
  shows "startEmulator f p =
        (Inr (),
         setStatus ''Emulator start function not found''
           (emit (ConsoleWarn
              ''No obvious start function found - you may need to adapt startEmulator() in script.js'')
              (setStatus (''Starting emulator: '' @ f) p)))
      \<and> invocations (trace (snd (startEmulator f p))) = invocations (trace p)"
  using assms by (simp add: startEmulator_def startEmulator_try_def)

theorem start_nothing_found_witness:
  "win_Module plain_page = Some empty_module \<and> \<not> is_function (win_startEmulator plain_page)
   \<and> \<not> is_function (mod_callMain empty_module) \<and> \<not> is_function (win_run plain_page)
   \<and> fst (startEmulator ''game.z64'' plain_page) = Inr ()
   \<and> statusText (snd (startEmulator ''game.z64'' plain_page))
       = ''Emulator start function not found''
   \<and> invocations (trace (snd (startEmulator ''game.z64'' plain_page))) = []"
  using start_nothing_found [of plain_page empty_module "''game.z64''"]
  by (simp add: plain_page_def no_module_def empty_module_def)

section \<open>The state transfer controller\<close>

lemma saveState_try_invocations:
  "invocations (trace (snd (saveState_try p))) =
     invocations (trace p) @
       (case win_Module p of
          None \<Rightarrow> []
        | Some m \<Rightarrow>
            if is_function (mod_save_state m) then [Module_save_state_call]
            else if is_function (win_save_state p) then [window_save_state_call]
            else [])"
  by (auto simp: saveState_try_def call_slot_def split: option.splits slot.splits outcome.splits)

lemma saveState_invocations:
  "invocations (trace (snd (saveState p))) =
     invocations (trace p) @
       (case win_Module p of
          None \<Rightarrow> []
        | Some m \<Rightarrow>
            if is_function (mod_save_state m) then [Module_save_state_call]
            else if is_function (win_save_state p) then [window_save_state_call]
            else [])"
proof -
  let ?p0 = "setStatus ''Attempting to save state...'' p"
  have "invocations (trace (snd (saveState p))) = invocations (trace (snd (saveState_try ?p0)))"
    by (cases "saveState_try ?p0") (simp add: saveState_def Let_def split: sum.splits)
  then show ?thesis
    by (simp add: saveState_try_invocations)
qed

lemma loadState_try_invocations:
  "invocations (trace (snd (loadState_try p))) =
     invocations (trace p) @
       (case win_Module p of
          None \<Rightarrow> []
        | Some m \<Rightarrow>
            if is_function (mod_load_state m) then [Module_load_state_call]
            else if is_function (win_load_state p) then [window_load_state_call]
            else [])"
  by (auto simp: loadState_try_def call_slot_def split: option.splits slot.splits outcome.splits)

lemma loadState_invocations:
  "invocations (trace (snd (loadState p))) =
     invocations (trace p) @
       (case win_Module p of
          None \<Rightarrow> []
        | Some m \<Rightarrow>
            if is_function (mod_load_state m) then [Module_load_state_call]
            else if is_function (win_load_state p) then [window_load_state_call]
            else [])"
proof -
  let ?p0 = "setStatus ''Attempting to load state...'' p"
  have "invocations (trace (snd (loadState p))) = invocations (trace (snd (loadState_try ?p0)))"
    by (cases "loadState_try ?p0") (simp add: loadState_def Let_def split: sum.splits)
  then show ?thesis
    by (simp add: loadState_try_invocations)
qed

lemma saveState_nothing_found:
  assumes "win_Module p = Some m" and "\<not> is_function (mod_save_state m)"
    and "\<not> is_function (win_save_state p)"
  shows "saveState p =
           (Inr (), emit (ConsoleWarn ''No save function found (module exports):'')
                      (setStatus ''No save-state API found in WASM''
                         (setStatus ''Attempting to save state...'' p)))"
  using assms by (simp add: saveState_def saveState_try_def)

lemma loadState_nothing_found:
  assumes "win_Module p = Some m" and "\<not> is_function (mod_load_state m)"
    and "\<not> is_function (win_load_state p)"
  shows "loadState p =
           (Inr (), emit (ConsoleWarn ''No load function found (module exports):'')
                      (setStatus ''No load-state API found in WASM''
                         (setStatus ''Attempting to load state...'' p)))"
  using assms by (simp add: loadState_def loadState_try_def)

text \<open>
  C6, as stated, fails where there is no module object: only the page-level
  \<^verbatim>\<open>save_state\<close> exists, and it is not called, because the probe of
  \<^verbatim>\<open>Module._save_state\<close> raises first.
\<close>

theorem page_level_save_skipped_without_module:
  "win_Module only_page_save = None
   \<and> is_function (win_save_state only_page_save)
   \<and> invocations (trace (snd (saveState only_page_save))) = []
   \<and> statusText (snd (saveState only_page_save)) = ''Save failed: Module is not defined''"
  by (simp add: only_page_save_def no_module_def saveState_def saveState_try_def Let_def
        Module_not_defined_def get_message_def)

text \<open>
  C6 (amended). On a page whose module object is present, \<^verbatim>\<open>saveState\<close> calls
  \<^verbatim>\<open>Module._save_state\<close> alone when that is a function, whether or not the page-level
  function exists too; otherwise it calls \<^verbatim>\<open>window.save_state\<close> alone when that is a
  function; when neither is, it calls nothing, returns normally and sets the status to
  \<^verbatim>\<open>No save-state API found in WASM\<close>. \<^verbatim>\<open>loadState\<close> does the same with
  \<^verbatim>\<open>Module._load_state\<close>, \<^verbatim>\<open>window.load_state\<close> and
  \<^verbatim>\<open>No load-state API found in WASM\<close>.
\<close>

theorem state_transfer_priority:
  assumes "win_Module p = Some m"
  shows "invocations (trace (snd (saveState p))) =
           invocations (trace p) @
             (if is_function (mod_save_state m) then [Module_save_state_call]
              else if is_function (win_save_state p) then [window_save_state_call]
              else [])
         \<and> (\<not> is_function (mod_save_state m) \<and> \<not> is_function (win_save_state p) \<longrightarrow>
              fst (saveState p) = Inr ()
              \<and> statusText (snd (saveState p)) = ''No save-state API found in WASM'')
         \<and> invocations (trace (snd (loadState p))) =
           invocations (trace p) @
             (if is_function (mod_load_state m) then [Module_load_state_call]
              else if is_function (win_load_state p) then [window_load_state_call]
              else [])
         \<and> (\<not> is_function (mod_load_state m) \<and> \<not> is_function (win_load_state p) \<longrightarrow>
              fst (loadState p) = Inr ()
              \<and> statusText (snd (loadState p)) = ''No load-state API found in WASM'')"
  using assms
  by (simp add: saveState_invocations loadState_invocations saveState_nothing_found
        loadState_nothing_found)

theorem state_transfer_priority_witness:
  "win_Module both_save = Some (empty_module\<lparr>mod_save_state := Function Returns,
                                               mod_load_state := Function Returns\<rparr>)
   \<and> invocations (trace (snd (saveState both_save))) = [Module_save_state_call]
   \<and> invocations (trace (snd (loadState both_save))) = [Module_load_state_call]
   \<and> win_Module plain_page = Some empty_module
   \<and> \<not> is_function (mod_save_state empty_module) \<and> \<not> is_function (win_save_state plain_page)
   \<and> \<not> is_function (mod_load_state empty_module) \<and> \<not> is_function (win_load_state plain_page)
   \<and> invocations (trace (snd (saveState plain_page))) = []
   \<and> statusText (snd (saveState plain_page)) = ''No save-state API found in WASM''
   \<and> statusText (snd (loadState plain_page)) = ''No load-state API found in WASM''"
  using state_transfer_priority [of both_save
          "empty_module\<lparr>mod_save_state := Function Returns, mod_load_state := Function Returns\<rparr>"]
    state_transfer_priority [of plain_page empty_module]
  by (simp add: both_save_def plain_page_def no_module_def empty_module_def)

text \<open>
  C10. With no module object at all, \<^verbatim>\<open>saveState\<close> and \<^verbatim>\<open>loadState\<close> return normally:
  the probe of the module raises, the handler of the function catches it and sets a
  failure status that carries the message. No state function is called.
\<close>

theorem state_transfer_without_module:
  assumes "win_Module p = None"
  shows "fst (saveState p) = Inr ()
         \<and> statusText (snd (saveState p)) = ''Save failed: Module is not defined''
         \<and> invocations (trace (snd (saveState p))) = invocations (trace p)
         \<and> fst (loadState p) = Inr ()
         \<and> statusText (snd (loadState p)) = ''Load state failed: Module is not defined''
         \<and> invocations (trace (snd (loadState p))) = invocations (trace p)"
  using assms
  by (simp add: saveState_def saveState_try_def loadState_def loadState_try_def Let_def
        Module_not_defined_def get_message_def)

theorem state_transfer_without_module_witness:
  "win_Module no_module = None
   \<and> fst (saveState no_module) = Inr ()
   \<and> statusText (snd (saveState no_module)) = ''Save failed: Module is not defined''
   \<and> fst (loadState no_module) = Inr ()
   \<and> statusText (snd (loadState no_module)) = ''Load state failed: Module is not defined''"
  using state_transfer_without_module [of no_module]
  by (simp add: no_module_def)

section \<open>Exceptions thrown by an entry point\<close>

lemma get_message_Inl:
  "get_message e = Inl te \<longleftrightarrow>
     e = Nullish \<and> te = ErrorObj ''TypeError'' ''Cannot read properties of null''"
  by (auto simp: get_message_def split: thrown.splits)

lemma call_slot_Inl:
  "call_slot name c f p = (Inl e, p') \<Longrightarrow>
     f = Function (Throws e) \<or> (\<not> is_function f \<and> e \<noteq> Nullish)"
  by (auto simp: call_slot_def split: slot.splits outcome.splits)

lemma saveState_try_Nullish:
  "saveState_try p = (Inl Nullish, p') \<Longrightarrow>
     \<exists>m. win_Module p = Some m \<and>
       (mod_save_state m = Function (Throws Nullish)
        \<or> (\<not> is_function (mod_save_state m) \<and> win_save_state p = Function (Throws Nullish)))"
  by (auto simp: saveState_try_def Module_not_defined_def
        split: option.splits if_splits prod.splits sum.splits dest!: call_slot_Inl)

lemma loadState_try_Nullish:
  "loadState_try p = (Inl Nullish, p') \<Longrightarrow>
     \<exists>m. win_Module p = Some m \<and>
       (mod_load_state m = Function (Throws Nullish)
        \<or> (\<not> is_function (mod_load_state m) \<and> win_load_state p = Function (Throws Nullish)))"
  by (auto simp: loadState_try_def Module_not_defined_def
        split: option.splits if_splits prod.splits sum.splits dest!: call_slot_Inl)

lemma startEmulator_try_Nullish:
  "startEmulator_try f p = (Inl Nullish, p') \<Longrightarrow>
     win_startEmulator p = Function (Throws Nullish)
     \<or> (\<not> is_function (win_startEmulator p) \<and>
         (\<exists>m. win_Module p = Some m \<and>
            (mod_callMain m = Function (Throws Nullish)
             \<or> (\<not> is_function (mod_callMain m) \<and> win_run p = Function (Throws Nullish)))))"
  by (auto simp: startEmulator_try_def Module_not_defined_def
        split: option.splits if_splits prod.splits sum.splits dest!: call_slot_Inl)

text \<open>
  The three operations let an exception out in one case only: the entry point they
  chose threw \<^verbatim>\<open>null\<close> or \<^verbatim>\<open>undefined\<close>. Any other thrown value ends in the handler's
  status message.
\<close>

lemma saveState_escapes_only_null:
  assumes "fst (saveState p) = Inl te"
  shows "\<exists>m. win_Module p = Some m \<and>
       (mod_save_state m = Function (Throws Nullish)
        \<or> (\<not> is_function (mod_save_state m) \<and> win_save_state p = Function (Throws Nullish)))"
proof -
  let ?p0 = "setStatus ''Attempting to save state...'' p"
  obtain r p1 where t: "saveState_try ?p0 = (r, p1)"
    by (cases "saveState_try ?p0")
  with assms obtain e where "r = Inl e" and "get_message e = Inl te"
    by (auto simp: saveState_def Let_def split: sum.splits)
  then have "r = Inl Nullish"
    by (simp add: get_message_Inl)
  with t have "saveState_try ?p0 = (Inl Nullish, p1)"
    by simp
  from saveState_try_Nullish [OF this] show ?thesis
    by simp
qed

lemma loadState_escapes_only_null:
  assumes "fst (loadState p) = Inl te"
  shows "\<exists>m. win_Module p = Some m \<and>
       (mod_load_state m = Function (Throws Nullish)
        \<or> (\<not> is_function (mod_load_state m) \<and> win_load_state p = Function (Throws Nullish)))"
proof -
  let ?p0 = "setStatus ''Attempting to load state...'' p"
  obtain r p1 where t: "loadState_try ?p0 = (r, p1)"
    by (cases "loadState_try ?p0")
  with assms obtain e where "r = Inl e" and "get_message e = Inl te"
    by (auto simp: loadState_def Let_def split: sum.splits)
  then have "r = Inl Nullish"
    by (simp add: get_message_Inl)
  with t have "loadState_try ?p0 = (Inl Nullish, p1)"
    by simp
  from loadState_try_Nullish [OF this] show ?thesis
    by simp
qed

lemma startEmulator_escapes_only_null:
  assumes "fst (startEmulator f p) = Inl te"
  shows "win_startEmulator p = Function (Throws Nullish)
     \<or> (\<not> is_function (win_startEmulator p) \<and>
         (\<exists>m. win_Module p = Some m \<and>
            (mod_callMain m = Function (Throws Nullish)
             \<or> (\<not> is_function (mod_callMain m) \<and> win_run p = Function (Throws Nullish)))))"
proof -
  let ?p0 = "setStatus (''Starting emulator: '' @ f) p"
  obtain r p1 where t: "startEmulator_try f ?p0 = (r, p1)"
    by (cases "startEmulator_try f ?p0")
  with assms obtain e where "r = Inl e" and "get_message e = Inl te"
    by (auto simp: startEmulator_def Let_def split: sum.splits)
  then have "r = Inl Nullish"
    by (simp add: get_message_Inl)
  with t have "startEmulator_try f ?p0 = (Inl Nullish, p1)"
    by simp
  from startEmulator_try_Nullish [OF this] show ?thesis
    by simp
qed

text \<open>A thrown value that is not nullish is reported in the status, and the operation
  returns normally.\<close>

lemma saveState_reports_exception:
  assumes "saveState_try (setStatus ''Attempting to save state...'' p) = (Inl e, p1)"
    and "e \<noteq> Nullish"
  shows "fst (saveState p) = Inr ()
         \<and> statusText (snd (saveState p)) =
             ''Save failed: '' @ (case e of ErrorObj n m \<Rightarrow> m | _ \<Rightarrow> ''undefined'')"
  using assms by (cases e) (simp_all add: saveState_def get_message_def)

lemma loadState_reports_exception:
  assumes "loadState_try (setStatus ''Attempting to load state...'' p) = (Inl e, p1)"
    and "e \<noteq> Nullish"
  shows "fst (loadState p) = Inr ()
         \<and> statusText (snd (loadState p)) =
             ''Load state failed: '' @ (case e of ErrorObj n m \<Rightarrow> m | _ \<Rightarrow> ''undefined'')"
  using assms by (cases e) (simp_all add: loadState_def get_message_def)

lemma startEmulator_reports_exception:
  assumes "startEmulator_try f (setStatus (''Starting emulator: '' @ f) p) = (Inl e, p1)"
    and "e \<noteq> Nullish"
  shows "fst (startEmulator f p) = Inr ()
         \<and> statusText (snd (startEmulator f p)) =
             ''Start failed: '' @
               (case e of ErrorObj n m \<Rightarrow> (if m \<noteq> [] then m else n) | Plain s \<Rightarrow> s | Nullish \<Rightarrow> [])"
  using assms by (cases e) (simp_all add: startEmulator_def get_message_def to_string_def)

text \<open>
  C8 at the failing input: a page whose chosen entry points throw \<^verbatim>\<open>null\<close>. Each of
  the three handlers logs the value and then reads its \<^verbatim>\<open>message\<close>, which raises a
  TypeError out of the handler: the operation ends with that exception, and the status
  still shows the message set before the \<^verbatim>\<open>try\<close>.
\<close>

theorem null_exception_escapes:
  "fst (saveState null_thrower) = Inl (ErrorObj ''TypeError'' ''Cannot read properties of null'')
   \<and> statusText (snd (saveState null_thrower)) = ''Attempting to save state...''
   \<and> fst (loadState null_thrower) = Inl (ErrorObj ''TypeError'' ''Cannot read properties of null'')
   \<and> statusText (snd (loadState null_thrower)) = ''Attempting to load state...''
   \<and> fst (startEmulator ''game.z64'' null_thrower)
       = Inl (ErrorObj ''TypeError'' ''Cannot read properties of null'')
   \<and> statusText (snd (startEmulator ''game.z64'' null_thrower)) = ''Starting emulator: game.z64''"
  by (simp add: null_thrower_def no_module_def empty_module_def saveState_def saveState_try_def
        loadState_def loadState_try_def startEmulator_def startEmulator_try_def call_slot_def
        Let_def get_message_def)

section \<open>The readiness gate\<close>



lemma elapse_Suc_right: "elapse (Suc n) p = tick (elapse n p)"
  by (induction n arbitrary: p) simp_all

lemma tick_countdown:
  "tick (p\<lparr>pending := [(Suc (Suc d), t)]\<rparr>) = p\<lparr>pending := [(Suc d, t)]\<rparr>"
  by (simp add: tick_def)

lemma elapse_countdown:
  "elapse k (p\<lparr>pending := [(k + Suc d, t)]\<rparr>) = p\<lparr>pending := [(Suc d, t)]\<rparr>"
  by (induction k arbitrary: p) (simp_all add: tick_countdown)

lemma tick_fires:
  "tick (p\<lparr>pending := [(Suc 0, t)]\<rparr>) = fire t (p\<lparr>pending := []\<rparr>)"
  by (simp add: tick_def)

text \<open>A single timer fires when its delay has passed, and not before.\<close>

lemma elapse_single_timeout:
  "elapse (Suc k) (p\<lparr>pending := [(Suc k, t)]\<rparr>) = fire t (p\<lparr>pending := []\<rparr>)"
  using elapse_countdown [where k = k and p = p and d = 0 and t = t]
  by (simp add: elapse_Suc_right tick_fires del: elapse.simps)

lemma fifty: "(50::nat) = Suc 49"
  by simp




lemma whenModuleReady_polls:
  assumes "\<not> module_shows_ready p"
  shows "whenModuleReady cb p = p\<lparr>pending := pending p @ [(50, Poll cb)]\<rparr>"
  using assms by (auto simp: whenModuleReady_def module_shows_ready_def split: option.splits)






section \<open>The load pipeline\<close>

text \<open>
  \<^verbatim>\<open>loadAndStartRom\<close> only hands the callback to \<^verbatim>\<open>whenModuleReady\<close>; on no page does
  its handler run.
\<close>

lemma loadAndStartRom_hands_over:
  "loadAndStartRom url p = (Inr (), whenModuleReady (MountThenStart url (filename_of url)) p)"
  by (simp add: loadAndStartRom_def loadAndStartRom_try_def Let_def)

text \<open>When the callback later runs and the mount fails, the error goes nowhere.\<close>

lemma invoke_mount_failure:
  "mountRomToFS url filename p = (Inl e, p1) \<Longrightarrow>
     invoke (MountThenStart url filename) p = emit (UnhandledRejection e) p1"
  by (simp add: invoke_def)

text \<open>
  C2 at the failing input: the module is ready (it shows its entry point) and the
  server answers 404. \<^verbatim>\<open>loadAndStartRom\<close> returns at once, without an error; 50 ms
  later the timeout runs the callback, the mount rejects with \<^verbatim>\<open>HTTP 404\<close>, and
  the rejection is unhandled. The status still reads \<^verbatim>\<open>Fetching ROM: ...\<close>; the handler
  of \<^verbatim>\<open>loadAndStartRom\<close>, which would have set \<^verbatim>\<open>Error loading ROM: HTTP 404\<close>, has not
  run.
\<close>

theorem mount_error_unhandled:
  "fst (loadAndStartRom ''roms/mario64.z64'' ready_404) = Inr ()
   \<and> elapse 50 (snd (loadAndStartRom ''roms/mario64.z64'' ready_404)) =
     ready_404\<lparr>statusText := ''Fetching ROM: roms/mario64.z64'',
       trace := [ConsoleLog ''[N64]'' ''Fetching ROM: roms/mario64.z64'',
                 UnhandledRejection (ErrorObj ''Error'' ''HTTP 404'')]\<rparr>"
proof -
  have "snd (loadAndStartRom ''roms/mario64.z64'' ready_404) =
          ready_404\<lparr>pending :=
            [(Suc 49, Timeout (MountThenStart ''roms/mario64.z64'' ''mario64.z64''))]\<rparr>"
    by (simp add: loadAndStartRom_hands_over filename_of_mario whenModuleReady_def ready_404_def
          entry_page_def no_module_def empty_module_def)
  then have "elapse 50 (snd (loadAndStartRom ''roms/mario64.z64'' ready_404)) =
      fire (Timeout (MountThenStart ''roms/mario64.z64'' ''mario64.z64''))
        (ready_404\<lparr>pending := []\<rparr>)"
    by (simp only: fifty elapse_single_timeout)
  then show ?thesis
    by (simp add: loadAndStartRom_hands_over fire_def invoke_def mountRomToFS_def Let_def
          ready_404_def entry_page_def no_module_def not_found_def show_nat_404 setStatus_def
          emit_def)
qed

section \<open>The filename\<close>

text \<open>
  C9, as stated, fails: when the selector holds \<^verbatim>\<open>roms/\<close>, that is the url handed to the
  pipeline, and its last path segment is the empty string.
\<close>

theorem filename_empty_for_directory_url:
  "clicked_url [] ''roms/'' = ''roms/'' \<and> filename_of ''roms/'' = []"
  by (simp add: clicked_url_def filename_of_def)

text \<open>
  C9 (amended). The url handed to the pipeline is never empty, neither the default one
  nor the one read at a click. The filename derived from a url is empty exactly when
  the url is empty or ends in a slash; so the filename of a url handed to the pipeline
  is non-empty exactly when that url does not end in a slash.
\<close>

theorem filename_empty_iff:
  "(filename_of url = [] \<longleftrightarrow> url = [] \<or> last url = CHR ''/'')
   \<and> defaultRomPath initial_value \<noteq> []
   \<and> clicked_url initial_value current_value \<noteq> []"
  by (simp add: filename_of_def last_split_str_empty defaultRomPath_def clicked_url_def)

theorem filename_empty_iff_witness:
  "filename_of ''roms/mario64.z64'' \<noteq> []
   \<and> defaultRomPath [] = ''roms/mario64.z64''
   \<and> clicked_url [] [] = ''roms/mario64.z64''"
  using filename_empty_iff [of "''roms/mario64.z64''" "[]" "[]"]
  by (simp add: defaultRomPath_def clicked_url_def)

end
